theory Spec2Isabelle
  imports Complex_Main "HOL-Library.AList" "HOL-Library.Multiset"
    "HOL-Library.Char_ord" "HOL-Library.List_Lexorder"
begin

section \<open>Conventions of the embedding\<close>

text \<open>
  The theory embeds the opportunity-detection engine of \<^verbatim>\<open>main.py\<close>.

  \<^item> A Python \<^verbatim>\<open>float\<close> is an exact real number (\<^typ>\<open>real\<close>): binary rounding and the
    non-finite values \<^verbatim>\<open>inf\<close> and \<^verbatim>\<open>nan\<close> have no counterpart here.
  \<^item> A Python \<^verbatim>\<open>str\<close> is a \<^typ>\<open>string\<close> whose characters are code points below 256.
  \<^item> A \<^verbatim>\<open>datetime\<close> is its instant in microseconds since 1970-01-01T00:00:00 UTC
    (\<^typ>\<open>int\<close>); a naive value read as UTC and an aware value are the same instant.
  \<^item> A dictionary whose iteration order is observable is an association list in
    insertion order; the other dictionaries are maps.
  \<^item> An exception is a value \<open>Inl e\<close> of a result type \<open>error + 'a\<close>.
\<close>

datatype error = ZeroDivisionError | OverflowError | IndexError | ValidationError

section \<open>Strings\<close>

definition char_code :: "char \<Rightarrow> nat" where
  "char_code c = of_char c"

text \<open>\<^verbatim>\<open>str.isspace\<close> on the code points below 256.\<close>

definition isspace :: "char \<Rightarrow> bool" where
  "isspace c = (char_code c \<in> {9, 10, 11, 12, 13, 28, 29, 30, 31, 32, 133, 160})"

definition strip :: "string \<Rightarrow> string" where
  "strip s = rev (dropWhile isspace (rev (dropWhile isspace s)))"

text \<open>
  \<^verbatim>\<open>str.lower\<close>: the letters A-Z and the upper-case letters of Latin-1 move up by 32,
  which sets the bit of weight 32 in their code.
\<close>

definition add_32 :: "char \<Rightarrow> char" where
  "add_32 c = (case c of Char b0 b1 b2 b3 b4 b5 b6 b7 \<Rightarrow> Char b0 b1 b2 b3 b4 True b6 b7)"

definition lower_char :: "char \<Rightarrow> char" where
  "lower_char c =
     (let n = char_code c
      in if (65 \<le> n \<and> n \<le> 90) \<or> (192 \<le> n \<and> n \<le> 222 \<and> n \<noteq> 215)
         then add_32 c else c)"

definition lower :: "string \<Rightarrow> string" where
  "lower s = map lower_char s"

definition startswith :: "string \<Rightarrow> string \<Rightarrow> bool" where
  "startswith s p = (take (length p) s = p)"

text \<open>\<^verbatim>\<open>s.split(",")\<close>: always at least one piece.\<close>

fun split_comma :: "string \<Rightarrow> string list" where
  "split_comma [] = [] # []"
| "split_comma (c # cs) =
     (if c = CHR '','' then [] # split_comma cs
      else (case split_comma cs of
              [] \<Rightarrow> [c] # []
            | x # xs \<Rightarrow> (c # x) # xs))"

text \<open>\<^verbatim>\<open>x or ""\<close> on an optional string.\<close>

definition or_empty :: "string option \<Rightarrow> string" where
  "or_empty s = (case s of None \<Rightarrow> [] | Some t \<Rightarrow> t)"

text \<open>Truth value of an optional string: \<^verbatim>\<open>None\<close> and \<^verbatim>\<open>""\<close> are false.\<close>

definition truthy_str :: "string option \<Rightarrow> bool" where
  "truthy_str s = (case s of None \<Rightarrow> False | Some t \<Rightarrow> t \<noteq> [])"

section \<open>Numbers: parsing, rounding, formatting\<close>

definition is_digit :: "char \<Rightarrow> bool" where
  "is_digit c = (48 \<le> char_code c \<and> char_code c \<le> 57)"

definition digit_val :: "char \<Rightarrow> nat" where
  "digit_val c = char_code c - 48"

text \<open>The grammar's \<^verbatim>\<open>digitpart\<close>: digits, with single underscores between digits.\<close>

fun digitpart :: "string \<Rightarrow> bool" where
  "digitpart [] = False"
| "digitpart [c] = is_digit c"
| "digitpart (c # d # cs) =
     (is_digit c \<and> (if d = CHR ''_'' then digitpart cs else digitpart (d # cs)))"

definition digits_value :: "string \<Rightarrow> nat" where
  "digits_value s = foldl (\<lambda>n c. 10 * n + digit_val c) 0 (filter is_digit s)"

definition split_sign :: "string \<Rightarrow> bool \<times> string" where
  "split_sign s =
     (case s of
        [] \<Rightarrow> (False, [])
      | c # cs \<Rightarrow> if c = CHR ''-'' then (True, cs)
                  else if c = CHR ''+'' then (False, cs) else (False, s))"

definition pow10 :: "int \<Rightarrow> real" where
  "pow10 e = (if 0 \<le> e then 10 ^ nat e else 1 / 10 ^ nat (- e))"

text \<open>The white space that \<^verbatim>\<open>float()\<close> removes around a numeral.\<close>

definition float_space :: "char \<Rightarrow> bool" where
  "float_space c = (char_code c \<in> {9, 10, 11, 12, 13, 32, 133, 160})"

definition is_exp_mark :: "char \<Rightarrow> bool" where
  "is_exp_mark c = (c = CHR ''e'' \<or> c = CHR ''E'')"

text \<open>
  \<^verbatim>\<open>float(s)\<close> on a string: \<open>None\<close> where Python raises \<^verbatim>\<open>ValueError\<close>. The accepted
  numerals are \<^verbatim>\<open>[sign] (digitpart ["."] | [digitpart] "." digitpart) [("e"|"E") [sign] digitpart]\<close>
  between white space. The spellings of infinity and not-a-number, which Python
  accepts too, denote values outside this embedding and are rejected here.
\<close>

definition py_float :: "string \<Rightarrow> real option" where
  "py_float s =
     (let t = rev (dropWhile float_space (rev (dropWhile float_space s)));
          (neg, u) = split_sign t;
          mant = takeWhile (\<lambda>c. \<not> is_exp_mark c) u;
          rest = dropWhile (\<lambda>c. \<not> is_exp_mark c) u;
          ip = takeWhile (\<lambda>c. c \<noteq> CHR ''.'') mant;
          dotfp = dropWhile (\<lambda>c. c \<noteq> CHR ''.'') mant;
          fp = tl dotfp;
          mant_ok = (if dotfp = [] then digitpart ip
                     else (digitpart fp \<and> (ip = [] \<or> digitpart ip)) \<or> (digitpart ip \<and> fp = []));
          ex = (if rest = [] then Some 0
                else (let (eneg, ed) = split_sign (tl rest)
                      in if digitpart ed
                         then Some (if eneg then - int (digits_value ed) else int (digits_value ed))
                         else None))
      in if mant_ok
         then (case ex of
                 None \<Rightarrow> None
               | Some e \<Rightarrow>
                   Some ((if neg then - 1 else 1) * of_nat (digits_value (ip @ fp))
                         * pow10 (e - int (length (filter is_digit fp)))))
         else None)"

definition round_half_even :: "real \<Rightarrow> int" where
  "round_half_even q =
     (let f = \<lfloor>q\<rfloor>; d = q - of_int f
      in if d < 1 / 2 then f else if 1 / 2 < d then f + 1
         else if even f then f else f + 1)"

text \<open>\<^verbatim>\<open>round(x, ndigits)\<close> for a non-negative number of digits.\<close>

definition py_round :: "real \<Rightarrow> nat \<Rightarrow> real" where
  "py_round x ndigits = of_int (round_half_even (x * 10 ^ ndigits)) / 10 ^ ndigits"

definition digit_char :: "nat \<Rightarrow> char" where
  "digit_char n = ''0123456789'' ! n"

fun digits_of :: "nat \<Rightarrow> string" where
  "digits_of n = (if n < 10 then [digit_char n] else digits_of (n div 10) @ [digit_char (n mod 10)])"

declare digits_of.simps [simp del]

text \<open>The decimal exponent of a positive number: \<open>10 ^ e \<le> x < 10 ^ (e + 1)\<close>.\<close>

definition decimal_exponent :: "real \<Rightarrow> int" where
  "decimal_exponent x =
     (if 1 \<le> x then int (length (digits_of (nat \<lfloor>x\<rfloor>))) - 1
      else - int (length (digits_of (nat (\<lceil>1 / x\<rceil> - 1)))))"

definition strip_trailing_zeros :: "string \<Rightarrow> string" where
  "strip_trailing_zeros s = rev (dropWhile (\<lambda>c. c = CHR ''0'') (rev s))"

definition with_fraction :: "string \<Rightarrow> string \<Rightarrow> string" where
  "with_fraction ip fp =
     (let f = strip_trailing_zeros fp in if f = [] then ip else ip @ ''.'' @ f)"

definition fixed_notation :: "string \<Rightarrow> int \<Rightarrow> string" where
  "fixed_notation ds e =
     (if 0 \<le> e then with_fraction (take (nat e + 1) ds) (drop (nat e + 1) ds)
      else with_fraction ''0'' (replicate (nat (- e) - 1) (CHR ''0'') @ ds))"

definition sci_notation :: "string \<Rightarrow> int \<Rightarrow> string" where
  "sci_notation ds e =
     with_fraction (take 1 ds) (drop 1 ds) @ ''e'' @ (if e < 0 then ''-'' else ''+'')
       @ (let d = digits_of (nat \<bar>e\<bar>) in if length d < 2 then CHR ''0'' # d else d)"

text \<open>
  \<^verbatim>\<open>"%g" % x\<close>: six significant digits (ties to even), fixed notation when the decimal
  exponent is in \<open>-4 .. 5\<close> and scientific notation otherwise, trailing zeros removed.
\<close>

definition fmt_g :: "real \<Rightarrow> string" where
  "fmt_g x =
     (if x = 0 then ''0''
      else
        (let a = \<bar>x\<bar>;
             e0 = decimal_exponent a;
             m0 = round_half_even (a / pow10 (e0 - 5));
             (m, e) = (if m0 = 1000000 then (100000, e0 + 1) else (m0, e0));
             ds = digits_of (nat m)
         in (if x < 0 then ''-'' else [])
            @ (if - 4 \<le> e \<and> e < 6 then fixed_notation ds e else sci_notation ds e)))"

section \<open>Rows of the odds table\<close>

text \<open>The columns of \<^verbatim>\<open>models.Odds\<close>; every column but the key may be \<^verbatim>\<open>NULL\<close>.\<close>

record odds =
  row_id :: int
  sportsbook :: "string option"
  league :: "string option"
  event :: "string option"
  market :: "string option"
  outcome :: "string option"
  line :: "string option"
  odds_decimal :: "real option"
  odds_american :: "string option"
  event_date :: "int option"
  last_updated :: "int option"
  commence_time :: "int option"

text \<open>\<^verbatim>\<open>o.odds_decimal or 0.0\<close>.\<close>

definition price :: "odds \<Rightarrow> real" where
  "price r = (case odds_decimal r of None \<Rightarrow> 0 | Some p \<Rightarrow> p)"

definition coerce_line :: "string option \<Rightarrow> string option" where
  "coerce_line line_val =
     (case line_val of
        None \<Rightarrow> None
      | Some l \<Rightarrow> (let s = strip l in if s \<noteq> [] then Some s else None))"

section \<open>The row filter\<close>

text \<open>
  \<^verbatim>\<open>timedelta(hours=h)\<close> in microseconds, rounded to the nearest microsecond, and
  \<^verbatim>\<open>datetime + timedelta\<close>; both raise \<^verbatim>\<open>OverflowError\<close> outside their ranges.
\<close>

definition timedelta_hours :: "real \<Rightarrow> error + int" where
  "timedelta_hours h =
     (let us = round_half_even (h * 3600000000)
      in if - 86399999913600000000 \<le> us \<and> us \<le> 86399999999999999999
         then Inr us else Inl OverflowError)"

definition datetime_add :: "int \<Rightarrow> int \<Rightarrow> error + int" where
  "datetime_add t d =
     (if - 62135596800000000 \<le> t + d \<and> t + d \<le> 253402300799999999
      then Inr (t + d) else Inl OverflowError)"

text \<open>Truth value of an optional set: \<^verbatim>\<open>None\<close> and the empty set are false.\<close>

definition truthy_set :: "string set option \<Rightarrow> bool" where
  "truthy_set S = (case S of None \<Rightarrow> False | Some A \<Rightarrow> A \<noteq> {})"

definition not_in :: "string \<Rightarrow> string set option \<Rightarrow> bool" where
  "not_in x S = (case S of None \<Rightarrow> False | Some A \<Rightarrow> x \<notin> A)"

text \<open>The body of the loop: \<open>True\<close> where the row is appended to \<^verbatim>\<open>out\<close>.\<close>

definition keep_row ::
  "int \<Rightarrow> string set option \<Rightarrow> string set option \<Rightarrow> string set option \<Rightarrow> odds \<Rightarrow> bool" where
  "keep_row cutoff leagues markets sportsbooks r =
     (case commence_time r of
        None \<Rightarrow> False
      | Some ct \<Rightarrow>
          if ct \<le> cutoff then False
          else if truthy_set leagues \<and> not_in (lower (or_empty (league r))) leagues then False
          else if truthy_set markets \<and> not_in (lower (or_empty (market r))) markets then False
          else if truthy_set sportsbooks \<and> not_in (or_empty (sportsbook r)) sportsbooks then False
          else True)"

text \<open>The first argument is the value of \<^verbatim>\<open>_now_utc()\<close> at the call.\<close>

definition apply_row_level_filters ::
  "int \<Rightarrow> odds list \<Rightarrow> string set option \<Rightarrow> string set option \<Rightarrow> string set option \<Rightarrow> real
     \<Rightarrow> error + odds list" where
  "apply_row_level_filters now rows leagues markets sportsbooks min_hours_ahead =
     (case timedelta_hours min_hours_ahead of
        Inl e \<Rightarrow> Inl e
      | Inr d \<Rightarrow>
          (case datetime_add now d of
             Inl e \<Rightarrow> Inl e
           | Inr cutoff \<Rightarrow> Inr (filter (keep_row cutoff leagues markets sportsbooks) rows)))"

section \<open>Grouping into buckets\<close>

text \<open>\<^verbatim>\<open>str(x)\<close> on an optional string.\<close>

definition py_str :: "string option \<Rightarrow> string" where
  "py_str x = (case x of None \<Rightarrow> ''None'' | Some t \<Rightarrow> t)"

definition norm_abs_spread :: "string option \<Rightarrow> string option" where
  "norm_abs_spread line_val =
     (case line_val of
        None \<Rightarrow> None
      | Some l \<Rightarrow>
          (case py_float (strip l) of
             Some x \<Rightarrow> Some (fmt_g (py_round \<bar>x\<bar> 3))
           | None \<Rightarrow> coerce_line line_val))"

text \<open>\<^verbatim>\<open>d[k].append(v)\<close> on a \<^verbatim>\<open>defaultdict(list)\<close>: a new key goes to the end.\<close>

fun dict_append :: "'k \<Rightarrow> 'v \<Rightarrow> ('k \<times> 'v list) list \<Rightarrow> ('k \<times> 'v list) list" where
  "dict_append k v [] = [(k, [v])]"
| "dict_append k v ((k', vs) # kvs) =
     (if k' = k then (k', vs @ [v]) # kvs else (k', vs) # dict_append k v kvs)"

type_synonym bucket_key = "string \<times> string \<times> string option"

definition bucket_key :: "odds \<Rightarrow> bucket_key" where
  "bucket_key r =
     (let mkt = lower (or_empty (market r));
          line_key = (if mkt = ''spreads'' then norm_abs_spread (line r)
                      else if mkt = ''totals'' then coerce_line (line r)
                      else None)
      in (or_empty (event r), mkt, line_key))"

definition group_by_event_market_line :: "odds list \<Rightarrow> (bucket_key \<times> odds list) list" where
  "group_by_event_market_line rows =
     foldl (\<lambda>buckets r. dict_append (bucket_key r) r buckets) [] rows"

section \<open>Best price per outcome\<close>

definition outcome_key :: "bool \<Rightarrow> odds \<Rightarrow> string" where
  "outcome_key spreads r =
     (if spreads
      then (case py_float (py_str (line r)) of
              Some v \<Rightarrow> if 0 \<le> v then ''plus'' else ''minus''
            | None \<Rightarrow> or_empty (outcome r))
      else or_empty (outcome r))"

text \<open>
  One round of the loop that keeps the better row per key; the dictionary keeps the
  position of a key that is assigned again.
\<close>

definition keep_best :: "('k \<times> odds) list \<Rightarrow> 'k \<Rightarrow> odds \<Rightarrow> ('k \<times> odds) list" where
  "keep_best best k r =
     (case map_of best k of
        None \<Rightarrow> AList.update k r best
      | Some prev \<Rightarrow> if price prev < price r then AList.update k r best else best)"

definition best_price_by_outcome :: "odds list \<Rightarrow> (string \<times> odds) list" where
  "best_price_by_outcome group_rows =
     (case group_rows of
        [] \<Rightarrow> []
      | g # _ \<Rightarrow>
          (let spreads = (lower (or_empty (market g)) = ''spreads'')
           in foldl (\<lambda>best r. keep_best best (outcome_key spreads r) r) [] group_rows))"

section \<open>Arbitrage margin\<close>

definition truediv :: "real \<Rightarrow> real \<Rightarrow> error + real" where
  "truediv a b = (if b = 0 then Inl ZeroDivisionError else Inr (a / b))"

fun calc_arb_margin_loop :: "odds list \<Rightarrow> real \<Rightarrow> error + real" where
  "calc_arb_margin_loop [] inv_sum = Inr (if inv_sum < 1 then (1 - inv_sum) * 100 else 0)"
| "calc_arb_margin_loop (r # rs) inv_sum =
     (let odd = price r
      in if odd \<le> 0 then Inr 0
         else (case truediv 1 odd of
                 Inl e \<Rightarrow> Inl e
               | Inr q \<Rightarrow> calc_arb_margin_loop rs (inv_sum + q)))"

definition calc_arb_margin :: "(string \<times> odds) list \<Rightarrow> error + real" where
  "calc_arb_margin best_by_outcome = calc_arb_margin_loop (map snd best_by_outcome) 0"

section \<open>Opportunities\<close>

record best_odds_entry =
  bo_sportsbook :: "string option"
  bo_outcome :: string
  bo_odds_decimal :: real
  bo_odds_american :: "string option"
  bo_line :: "string option"

text \<open>
  An opportunity; \<open>opp_commence_time\<close> stands for the ISO-8601 text that \<^verbatim>\<open>_iso\<close>
  makes of the instant (in UTC, so the order of the texts is the order of the instants).
\<close>

record opportunity =
  opp_event :: string
  opp_league :: string
  opp_market :: string
  opp_line :: "string option"
  opp_commence_time :: "int option"
  opp_event_date :: "int option"
  profit_margin :: real
  best_odds :: "best_odds_entry list"

definition best_list :: "(string \<times> odds) list \<Rightarrow> best_odds_entry list" where
  "best_list best_by_outcome =
     map (\<lambda>(outc, row).
            \<lparr>bo_sportsbook = sportsbook row, bo_outcome = outc, bo_odds_decimal = price row,
             bo_odds_american = odds_american row, bo_line = coerce_line (line row)\<rparr>)
         best_by_outcome"

text \<open>The body of the loop over the buckets: \<open>Inr None\<close> where it runs \<^verbatim>\<open>continue\<close>.\<close>

definition score_bucket :: "real \<Rightarrow> bucket_key \<times> odds list \<Rightarrow> error + opportunity option" where
  "score_bucket min_margin g =
     (case g of
        ((ev, mkt, line_norm), group_rows) \<Rightarrow>
          (let best_by_outcome = best_price_by_outcome group_rows
           in if length best_by_outcome < 2 then Inr None
              else (case calc_arb_margin best_by_outcome of
                      Inl e \<Rightarrow> Inl e
                    | Inr margin \<Rightarrow>
                        if margin \<le> 0 \<or> margin < min_margin then Inr None
                        else (case group_rows of
                                [] \<Rightarrow> Inl IndexError
                              | sample # _ \<Rightarrow>
                                  Inr (Some
                                    \<lparr>opp_event = ev,
                                     opp_league = lower (or_empty (league sample)),
                                     opp_market = mkt,
                                     opp_line = line_norm,
                                     opp_commence_time = commence_time sample,
                                     opp_event_date = event_date sample,
                                     profit_margin = py_round margin 3,
                                     best_odds = best_list best_by_outcome\<rparr>)))))"

fun score_groups :: "real \<Rightarrow> (bucket_key \<times> odds list) list \<Rightarrow> error + opportunity list" where
  "score_groups min_margin [] = Inr []"
| "score_groups min_margin (g # gs) =
     (case score_bucket min_margin g of
        Inl e \<Rightarrow> Inl e
      | Inr x \<Rightarrow>
          (case score_groups min_margin gs of
             Inl e \<Rightarrow> Inl e
           | Inr opps \<Rightarrow> Inr (case x of None \<Rightarrow> opps | Some opp \<Rightarrow> opp # opps)))"

section \<open>Sorting and pagination\<close>

text \<open>
  A stable sort by a strict order on the keys, as \<^verbatim>\<open>list.sort\<close> is: an element goes
  in front of the first later element that is not smaller.
\<close>

fun insort_by :: "('a \<Rightarrow> 'a \<Rightarrow> bool) \<Rightarrow> 'a \<Rightarrow> 'a list \<Rightarrow> 'a list" where
  "insort_by lt x [] = [x]"
| "insort_by lt x (y # ys) = (if lt y x then y # insort_by lt x ys else x # y # ys)"

definition stable_sort :: "('a \<Rightarrow> 'a \<Rightarrow> bool) \<Rightarrow> 'a list \<Rightarrow> 'a list" where
  "stable_sort lt xs = foldr (insort_by lt) xs []"

text \<open>The order of the date keys: an absent time is the empty text, below every date.\<close>

definition date_key_less :: "int option \<Rightarrow> int option \<Rightarrow> bool" where
  "date_key_less a b =
     (case b of
        None \<Rightarrow> False
      | Some y \<Rightarrow> (case a of None \<Rightarrow> True | Some x \<Rightarrow> x < y))"

definition sort_key_less :: "string \<Rightarrow> opportunity \<Rightarrow> opportunity \<Rightarrow> bool" where
  "sort_key_less key a b =
     (if key = ''date'' then date_key_less (opp_commence_time a) (opp_commence_time b)
      else if key = ''league'' then opp_league a < opp_league b
      else if key = ''event'' then opp_event a < opp_event b
      else profit_margin a < profit_margin b)"

text \<open>\<^verbatim>\<open>xs.sort(key=..., reverse=...)\<close>: with \<^verbatim>\<open>reverse\<close> the order is turned round and ties keep their order.\<close>

definition py_sort :: "('a \<Rightarrow> 'a \<Rightarrow> bool) \<Rightarrow> bool \<Rightarrow> 'a list \<Rightarrow> 'a list" where
  "py_sort lt reverse xs = stable_sort (if reverse then (\<lambda>a b. lt b a) else lt) xs"

text \<open>\<^verbatim>\<open>xs[start:stop]\<close> for \<open>0 \<le> start \<le> stop\<close>.\<close>

definition slice :: "'a list \<Rightarrow> int \<Rightarrow> int \<Rightarrow> 'a list" where
  "slice xs start stop = take (nat (stop - start)) (drop (nat start) xs)"

section \<open>Books summary\<close>

type_synonym emo_key = "string \<times> string \<times> string option \<times> string"

definition emo_key :: "odds \<Rightarrow> emo_key" where
  "emo_key r =
     (or_empty (event r), lower (or_empty (market r)), coerce_line (line r), or_empty (outcome r))"

text \<open>The single best row of a group: the first row with the greatest price.\<close>

definition find_best :: "odds list \<Rightarrow> odds option" where
  "find_best lst =
     foldl (\<lambda>best r. case best of
                        None \<Rightarrow> Some r
                      | Some b \<Rightarrow> if price b < price r then Some r else best)
           None lst"

record tallies =
  best_counts :: "string \<rightharpoonup> nat"
  avg_odds_sum :: "string \<rightharpoonup> real"
  avg_odds_n :: "string \<rightharpoonup> nat"

definition get_nat :: "(string \<rightharpoonup> nat) \<Rightarrow> string \<Rightarrow> nat" where
  "get_nat d k = (case d k of None \<Rightarrow> 0 | Some n \<Rightarrow> n)"

definition get_real :: "(string \<rightharpoonup> real) \<Rightarrow> string \<Rightarrow> real" where
  "get_real d k = (case d k of None \<Rightarrow> 0 | Some x \<Rightarrow> x)"

definition credit_best :: "tallies \<Rightarrow> odds list \<Rightarrow> tallies" where
  "credit_best t lst =
     (case find_best lst of
        None \<Rightarrow> t
      | Some b \<Rightarrow>
          if truthy_str (sportsbook b)
          then t\<lparr>best_counts :=
                   (best_counts t)(or_empty (sportsbook b) \<mapsto>
                      get_nat (best_counts t) (or_empty (sportsbook b)) + 1)\<rparr>
          else t)"

definition add_offer :: "tallies \<Rightarrow> odds \<Rightarrow> tallies" where
  "add_offer t r =
     (if \<not> truthy_str (sportsbook r) then t
      else t\<lparr>avg_odds_sum :=
                (avg_odds_sum t)(or_empty (sportsbook r) \<mapsto>
                   get_real (avg_odds_sum t) (or_empty (sportsbook r)) + price r),
              avg_odds_n :=
                (avg_odds_n t)(or_empty (sportsbook r) \<mapsto>
                   get_nat (avg_odds_n t) (or_empty (sportsbook r)) + 1)\<rparr>)"

definition tally_group :: "tallies \<Rightarrow> odds list \<Rightarrow> tallies" where
  "tally_group t lst = foldl add_offer (credit_best t lst) lst"

definition by_emo :: "odds list \<Rightarrow> (emo_key \<times> odds list) list" where
  "by_emo rows = foldl (\<lambda>d r. dict_append (emo_key r) r d) [] rows"

definition tally_rows :: "odds list \<Rightarrow> tallies" where
  "tally_rows rows =
     foldl (\<lambda>t g. tally_group t (snd g))
       \<lparr>best_counts = Map.empty, avg_odds_sum = Map.empty, avg_odds_n = Map.empty\<rparr>
       (by_emo rows)"

record book_stats =
  best_price_count :: nat
  avg_offered_decimal :: "real option"

text \<open>
  The summary as a map from the book to its statistics. The sum and the count of a book
  are written together, so the sum is there wherever the count is.
\<close>

definition collect_books_summary :: "odds list \<Rightarrow> (string \<rightharpoonup> book_stats)" where
  "collect_books_summary rows =
     (let t = tally_rows rows
      in (\<lambda>b. if b \<in> dom (best_counts t) \<union> dom (avg_odds_sum t)
               then Some \<lparr>best_price_count = get_nat (best_counts t) b,
                          avg_offered_decimal =
                            (if get_nat (avg_odds_n t) b \<noteq> 0
                             then Some (get_real (avg_odds_sum t) b / real (get_nat (avg_odds_n t) b))
                             else None)\<rparr>
               else None))"

section \<open>Totals middles\<close>

text \<open>
  A leg of a candidate; \<open>leg_line\<close> is the number whose text \<^verbatim>\<open>str(lo)\<close> the source stores.
\<close>

record leg =
  leg_sportsbook :: "string option"
  leg_line :: real
  leg_odds_decimal :: "real option"
  leg_odds_american :: "string option"

record middle =
  mid_event :: string
  mid_market :: string
  mid_over :: leg
  mid_under :: leg
  middle_width :: real
  mid_commence_time :: "int option"
  mid_event_date :: "int option"
  mid_note :: string

definition read_line :: "odds \<Rightarrow> real option" where
  "read_line x = py_float (py_str (line x))"

definition best_by_line :: "odds list \<Rightarrow> (real \<times> odds) list" where
  "best_by_line rs =
     foldl (\<lambda>best r. case read_line r of
                        None \<Rightarrow> best
                      | Some l \<Rightarrow> keep_best best l r)
           [] rs"

text \<open>\<^verbatim>\<open>x or y\<close> on optional values that are true when present.\<close>

definition or_else :: "'a option \<Rightarrow> 'a option \<Rightarrow> 'a option" where
  "or_else x y = (case x of None \<Rightarrow> y | Some v \<Rightarrow> Some v)"

definition make_leg :: "real \<Rightarrow> odds \<Rightarrow> leg" where
  "make_leg l row =
     \<lparr>leg_sportsbook = sportsbook row, leg_line = l, leg_odds_decimal = odds_decimal row,
      leg_odds_american = odds_american row\<rparr>"

definition candidate :: "string \<Rightarrow> real \<Rightarrow> odds \<Rightarrow> real \<Rightarrow> odds \<Rightarrow> middle" where
  "candidate ev lo over_row lu under_row =
     \<lparr>mid_event = ev, mid_market = ''totals'',
      mid_over = make_leg lo over_row, mid_under = make_leg lu under_row,
      middle_width = lu - lo,
      mid_commence_time = or_else (commence_time over_row) (commence_time under_row),
      mid_event_date = or_else (event_date over_row) (event_date under_row),
      mid_note = ''Totals middle candidate (not guaranteed profit).''\<rparr>"

text \<open>The inner loop over the Under lines, for one Over line.\<close>

definition under_loop ::
  "real \<Rightarrow> real \<Rightarrow> string \<Rightarrow> (real \<times> odds) list \<Rightarrow> real \<Rightarrow> odds \<Rightarrow> real list \<Rightarrow> middle list" where
  "under_loop min_width min_price ev best_under_by_line lo over_row under_lines =
     concat (map (\<lambda>lu.
        if lu \<le> lo then []
        else (case map_of best_under_by_line lu of
                None \<Rightarrow> []
              | Some under_row \<Rightarrow>
                  if price under_row < min_price then []
                  else if lu - lo < min_width then []
                  else [candidate ev lo over_row lu under_row])) under_lines)"

text \<open>The outer loop over the Over lines. Every line looked up is a key of its dictionary.\<close>

definition over_loop ::
  "real \<Rightarrow> real \<Rightarrow> string \<Rightarrow> (real \<times> odds) list \<Rightarrow> (real \<times> odds) list \<Rightarrow> real list \<Rightarrow> real list
     \<Rightarrow> middle list" where
  "over_loop min_width min_price ev best_over_by_line best_under_by_line over_lines under_lines =
     concat (map (\<lambda>lo.
        (case map_of best_over_by_line lo of
           None \<Rightarrow> []
         | Some over_row \<Rightarrow>
             if price over_row < min_price then []
             else under_loop min_width min_price ev best_under_by_line lo over_row under_lines))
        over_lines)"

definition is_over :: "odds \<Rightarrow> bool" where
  "is_over r = startswith (lower (or_empty (outcome r))) ''over''"

definition is_under :: "odds \<Rightarrow> bool" where
  "is_under r = startswith (lower (or_empty (outcome r))) ''under''"

text \<open>The body of the loop over the events: the candidates of one event.\<close>

definition event_candidates :: "real \<Rightarrow> real \<Rightarrow> string \<Rightarrow> odds list \<Rightarrow> middle list" where
  "event_candidates min_width min_price ev lst =
     (let overs = filter is_over lst;
          unders = filter is_under lst
      in if overs = [] \<or> unders = [] then []
         else (let best_over_by_line = best_by_line overs;
                   best_under_by_line = best_by_line unders
               in if best_over_by_line = [] \<or> best_under_by_line = [] then []
                  else over_loop min_width min_price ev best_over_by_line best_under_by_line
                         (sort (map fst best_over_by_line)) (sort (map fst best_under_by_line))))"

definition by_event :: "odds list \<Rightarrow> (string \<times> odds list) list" where
  "by_event rows =
     foldl (\<lambda>d r. if lower (or_empty (market r)) \<noteq> ''totals'' then d
                   else dict_append (or_empty (event r)) r d) [] rows"


definition detect_middles_totals :: "odds list \<Rightarrow> real \<Rightarrow> real \<Rightarrow> middle list" where
  "detect_middles_totals rows min_width min_price =
     concat (map (\<lambda>g. event_candidates min_width min_price (fst g) (snd g)) (by_event rows))"

section \<open>The endpoint\<close>

text \<open>The query parameters of \<^verbatim>\<open>/arbitrage\<close>, as the caller sends them.\<close>

record params =
  leagues :: "string option"
  markets :: "string option"
  sportsbooks :: "string option"
  min_margin :: real
  min_hours_ahead :: real
  show_middles :: bool
  middle_min_width :: real
  middle_min_price :: real
  sort_by :: string
  sort_dir :: string
  page :: int
  limit :: int

definition default_params :: params where
  "default_params =
     \<lparr>leagues = None, markets = None, sportsbooks = None, min_margin = 0, min_hours_ahead = 0,
      show_middles = False, middle_min_width = 1 / 2, middle_min_price = 187 / 100,
      sort_by = ''profit'', sort_dir = ''desc'', page = 1, limit = 50\<rparr>"

text \<open>The multi-select filters: lower-cased for leagues and markets, as written for books.\<close>

definition lowered_set :: "string option \<Rightarrow> string set option" where
  "lowered_set x =
     (if truthy_str x then Some (set (map (\<lambda>s. lower (strip s)) (split_comma (or_empty x))))
      else None)"

definition stripped_set :: "string option \<Rightarrow> string set option" where
  "stripped_set x =
     (if truthy_str x then Some (set (map strip (split_comma (or_empty x)))) else None)"

definition filtered_rows :: "int \<Rightarrow> odds list \<Rightarrow> params \<Rightarrow> error + odds list" where
  "filtered_rows now db p =
     apply_row_level_filters now db (lowered_set (leagues p)) (lowered_set (markets p))
       (stripped_set (sportsbooks p)) (min_hours_ahead p)"

text \<open>The opportunities after scoring and sorting, before the page is cut.\<close>

definition scored_opportunities :: "odds list \<Rightarrow> params \<Rightarrow> error + opportunity list" where
  "scored_opportunities rows p =
     (case score_groups (min_margin p) (group_by_event_market_line rows) of
        Inl e \<Rightarrow> Inl e
      | Inr opps \<Rightarrow>
          Inr (py_sort (sort_key_less (sort_by p)) (lower (sort_dir p) = ''desc'') opps))"

text \<open>
  The key of the middles is the pair of width and time. The rows come out of the filter,
  which drops every row without a time, so both times of a comparison are present.
\<close>

definition middle_key_less :: "middle \<Rightarrow> middle \<Rightarrow> bool" where
  "middle_key_less a b =
     (middle_width a < middle_width b
      \<or> (middle_width a = middle_width b
          \<and> date_key_less (mid_commence_time a) (mid_commence_time b)))"

record response =
  resp_page :: int
  resp_limit :: int
  total :: nat
  opportunities :: "opportunity list"
  middles :: "middle list"
  books_summary :: "string \<rightharpoonup> book_stats"

text \<open>
  The endpoint, from the clock and the table to the response. The bounds on \<^verbatim>\<open>page\<close> and
  \<^verbatim>\<open>limit\<close> are those of the signature; the echoed filters and the time stamp of the
  response are left out.
\<close>

definition get_arbitrage :: "int \<Rightarrow> odds list \<Rightarrow> params \<Rightarrow> error + response" where
  "get_arbitrage now db p =
     (if page p < 1 \<or> limit p < 1 \<or> 500 < limit p then Inl ValidationError
      else (case filtered_rows now db p of
              Inl e \<Rightarrow> Inl e
            | Inr rows \<Rightarrow>
                (case scored_opportunities rows p of
                   Inl e \<Rightarrow> Inl e
                 | Inr opps \<Rightarrow>
                     (let start = (page p - 1) * limit p;
                          stop = start + limit p
                      in Inr \<lparr>resp_page = page p, resp_limit = limit p,
                               total = length opps,
                               opportunities = slice opps start stop,
                               middles =
                                 (if show_middles p
                                  then py_sort middle_key_less True
                                         (detect_middles_totals rows (middle_min_width p)
                                            (middle_min_price p))
                                  else []),
                               books_summary = collect_books_summary rows\<rparr>))))"

section \<open>Notions of the claims\<close>



text \<open>The tallies before the first group.\<close>

definition no_tallies :: tallies where
  "no_tallies = \<lparr>best_counts = Map.empty, avg_odds_sum = Map.empty, avg_odds_n = Map.empty\<rparr>"

section \<open>Sample data\<close>

text \<open>A row of the table with the columns that the engine reads.\<close>

definition quote :: "string \<Rightarrow> string \<Rightarrow> string \<Rightarrow> string \<Rightarrow> string option \<Rightarrow> real \<Rightarrow> int \<Rightarrow> odds" where
  "quote book ev mkt outc l p t =
     \<lparr>row_id = 0, sportsbook = Some book, league = Some ''nfl'', event = Some ev, market = Some mkt,
      outcome = Some outc, line = l, odds_decimal = Some p, odds_american = None,
      event_date = None, last_updated = None, commence_time = Some t\<rparr>"

text \<open>
  The scenario of an event with two outcomes: A at 2.10 from one book, B at 2.05 from another,
  starting a day after the clock.
\<close>

definition ex_rows :: "odds list" where
  "ex_rows = [quote ''Book1'' ''A vs B'' ''h2h'' ''A'' None (21 / 10) 86400000000,
              quote ''Book2'' ''A vs B'' ''h2h'' ''B'' None (41 / 20) 86400000000]"

definition ex_best :: "(string \<times> odds) list" where
  "ex_best = [(''A'', quote ''Book1'' ''A vs B'' ''h2h'' ''A'' None (21 / 10) 86400000000),
              (''B'', quote ''Book2'' ''A vs B'' ''h2h'' ''B'' None (41 / 20) 86400000000)]"

definition ex_opp :: opportunity where
  "ex_opp = \<lparr>opp_event = ''A vs B'', opp_league = ''nfl'', opp_market = ''h2h'', opp_line = None,
     opp_commence_time = Some 86400000000, opp_event_date = None, profit_margin = 18 / 5,
     best_odds =
       [\<lparr>bo_sportsbook = Some ''Book1'', bo_outcome = ''A'', bo_odds_decimal = 21 / 10,
         bo_odds_american = None, bo_line = None\<rparr>,
        \<lparr>bo_sportsbook = Some ''Book2'', bo_outcome = ''B'', bo_odds_decimal = 41 / 20,
         bo_odds_american = None, bo_line = None\<rparr>]\<rparr>"

text \<open>A bucket whose margin is exactly 50: both outcomes at 4.\<close>

definition even_rows :: "odds list" where
  "even_rows = [quote ''Book1'' ''C vs D'' ''h2h'' ''C'' None 4 86400000000,
                quote ''Book2'' ''C vs D'' ''h2h'' ''D'' None 4 86400000000]"

definition even_opp :: opportunity where
  "even_opp = \<lparr>opp_event = ''C vs D'', opp_league = ''nfl'', opp_market = ''h2h'', opp_line = None,
     opp_commence_time = Some 86400000000, opp_event_date = None, profit_margin = 50,
     best_odds =
       [\<lparr>bo_sportsbook = Some ''Book1'', bo_outcome = ''C'', bo_odds_decimal = 4,
         bo_odds_american = None, bo_line = None\<rparr>,
        \<lparr>bo_sportsbook = Some ''Book2'', bo_outcome = ''D'', bo_odds_decimal = 4,
         bo_odds_american = None, bo_line = None\<rparr>]\<rparr>"



definition over_445 :: odds where
  "over_445 = quote ''OneBook'' ''J vs K'' ''totals'' ''Over'' (Some ''44.5'') (39 / 20) 86400000000"

definition under_465 :: odds where
  "under_465 = quote ''OneBook'' ''J vs K'' ''totals'' ''Under'' (Some ''46.5'') (39 / 20) 86400000000"


definition offers :: "odds list" where
  "offers = [quote ''Book1'' ''A vs B'' ''h2h'' ''A'' None 2 86400000000,
             quote ''Book1'' ''A vs B'' ''h2h'' ''B'' None (- 1) 86400000000,
             quote ''Book2'' ''A vs B'' ''h2h'' ''B'' None 3 86400000000]"

section \<open>Evaluation\<close>

text \<open>
  The definitions that the simplifier unfolds to run the engine on sample data, and the
  lemmas about the loops of the engine.
\<close>

lemmas str_defs = char_code_def isspace_def strip_def lower_def lower_char_def add_32_def startswith_def
  or_empty_def truthy_str_def py_str_def
lemmas num_defs = is_digit_def digit_val_def digits_value_def split_sign_def pow10_def float_space_def
  is_exp_mark_def py_float_def round_half_even_def py_round_def
lemmas row_defs = quote_def price_def coerce_line_def
lemmas group_defs = norm_abs_spread_def bucket_key_def group_by_event_market_line_def outcome_key_def
  keep_best_def best_price_by_outcome_def truediv_def calc_arb_margin_def best_list_def score_bucket_def
lemmas filter_defs = timedelta_hours_def datetime_add_def truthy_set_def not_in_def keep_row_def
  apply_row_level_filters_def lowered_set_def stripped_set_def filtered_rows_def
lemmas sort_defs = stable_sort_def date_key_less_def sort_key_less_def py_sort_def slice_def

subsection \<open>The margin loop\<close>

lemma margin_loop_nonpositive:
  "\<exists>r\<in>set rs. price r \<le> 0 \<Longrightarrow> calc_arb_margin_loop rs s = Inr 0"
  by (induction rs arbitrary: s) (auto simp: truediv_def Let_def)


lemma margin_loop_total: "\<exists>m. calc_arb_margin_loop rs s = Inr m"
  by (induction rs arbitrary: s) (auto simp: truediv_def Let_def)

lemma calc_arb_margin_total: "\<exists>m. calc_arb_margin best = Inr m"
  by (simp add: calc_arb_margin_def margin_loop_total)





subsection \<open>Scoring a bucket\<close>

lemma score_bucket_Some:
  assumes "score_bucket mm (k, rows) = Inr (Some opp)"
  shows "2 \<le> length (best_price_by_outcome rows)
     \<and> (\<exists>m. calc_arb_margin (best_price_by_outcome rows) = Inr m \<and> 0 < m \<and> mm \<le> m
            \<and> profit_margin opp = py_round m 3)
     \<and> best_odds opp = best_list (best_price_by_outcome rows)"
  using assms
  by (cases k) (auto simp: score_bucket_def Let_def split: if_splits sum.splits list.splits prod.splits)

lemma best_price_Nil: "best_price_by_outcome [] = []"
  by (simp add: best_price_by_outcome_def)

lemma score_bucket_emits:
  assumes "2 \<le> length (best_price_by_outcome rows)"
    and "calc_arb_margin (best_price_by_outcome rows) = Inr m" and "0 < m" and "mm \<le> m"
  shows "\<exists>opp. score_bucket mm (k, rows) = Inr (Some opp)"
proof -
  from assms(1) have "rows \<noteq> []" by (auto simp: best_price_Nil)
  then obtain r rs where "rows = r # rs" by (cases rows) auto
  with assms show ?thesis
    by (cases k) (auto simp: score_bucket_def Let_def)
qed

lemma score_bucket_total: "\<exists>x. score_bucket mm g = Inr x"
proof -
  obtain k rows where g: "g = (k, rows)" by (cases g)
  obtain ev mkt ln where k: "k = (ev, mkt, ln)" by (cases k)
  obtain m where m: "calc_arb_margin (best_price_by_outcome rows) = Inr m"
    using calc_arb_margin_total by blast
  show ?thesis
  proof (cases rows)
    case Nil
    then show ?thesis by (simp add: g k score_bucket_def best_price_Nil)
  next
    case (Cons r rs)
    then show ?thesis using m by (simp add: g k score_bucket_def Let_def)
  qed
qed


lemma score_groups_total: "\<exists>opps. score_groups mm gs = Inr opps"
proof (induction gs)
  case Nil
  then show ?case by simp
next
  case (Cons g gs)
  then show ?case using score_bucket_total [of mm g] by (auto split: sum.splits)
qed

subsection \<open>Sorting and slicing\<close>


lemma length_insort_by: "length (insort_by lt x ys) = Suc (length ys)"
  by (induction ys) auto


lemma length_stable_sort: "length (stable_sort lt xs) = length xs"
  by (induction xs) (auto simp: stable_sort_def length_insort_by)


lemma length_py_sort: "length (py_sort lt rv xs) = length xs"
  by (simp add: py_sort_def length_stable_sort)


lemma slice_beyond: "0 \<le> a \<Longrightarrow> int (length xs) \<le> a \<Longrightarrow> slice xs a b = []"
  by (simp add: slice_def)






subsection \<open>The sample scenario\<close>

lemma ex_filtered: "filtered_rows 0 ex_rows default_params = Inr ex_rows"
  by (simp add: filter_defs default_params_def ex_rows_def quote_def str_defs round_half_even_def)

lemma ex_filtered_page: "filtered_rows 0 ex_rows (default_params\<lparr>page := pg, limit := lm\<rparr>) = Inr ex_rows"
  by (simp add: filter_defs default_params_def ex_rows_def quote_def str_defs round_half_even_def)

lemma ex_best_eq: "best_price_by_outcome ex_rows = ex_best"
  by (simp add: ex_rows_def ex_best_def best_price_by_outcome_def outcome_key_def keep_best_def
      str_defs row_defs)

lemma ex_margin: "calc_arb_margin ex_best = Inr (3100 / 861)"
  by (simp add: ex_best_def calc_arb_margin_def truediv_def row_defs)

lemma ex_groups: "group_by_event_market_line ex_rows = [((''A vs B'', ''h2h'', None), ex_rows)]"
  by (simp add: ex_rows_def group_by_event_market_line_def bucket_key_def str_defs quote_def)

lemma ex_round: "py_round (3100 / 861) 3 = 18 / 5"
  by (simp add: py_round_def round_half_even_def)

lemma ex_score: "score_bucket mm ((''A vs B'', ''h2h'', None), ex_rows) = 
   (if 3100 / 861 < mm then Inr None else Inr (Some ex_opp))"
proof -
  have bl: "best_list ex_best = best_odds ex_opp"
    by (simp add: ex_best_def ex_opp_def best_list_def row_defs)
  have opp: "\<lparr>opp_event = ''A vs B'', opp_league = ''nfl'', opp_market = ''h2h'', opp_line = None,
     opp_commence_time = Some 86400000000, opp_event_date = None, profit_margin = 18 / 5,
     best_odds = best_odds ex_opp\<rparr> = ex_opp"
    by (simp add: ex_opp_def)
  have hd: "ex_rows = quote ''Book1'' ''A vs B'' ''h2h'' ''A'' None (21 / 10) 86400000000 # tl ex_rows"
    by (simp add: ex_rows_def)
  have len: "length ex_best = 2" by (simp add: ex_best_def)
  show ?thesis
    apply (simp add: score_bucket_def ex_best_eq ex_margin ex_round len bl del: One_nat_def)
    apply (subst hd)
    apply (simp add: quote_def str_defs opp ex_round bl)
    done
qed

lemma ex_scored: "scored_opportunities ex_rows (default_params\<lparr>page := pg, limit := lm\<rparr>) = Inr [ex_opp]"
  by (simp add: scored_opportunities_def ex_groups ex_score default_params_def py_sort_def stable_sort_def)

lemma ex_response:
  "1 \<le> pg \<Longrightarrow> 1 \<le> lm \<Longrightarrow> lm \<le> 500 \<Longrightarrow>
   get_arbitrage 0 ex_rows (default_params\<lparr>page := pg, limit := lm\<rparr>) =
     Inr \<lparr>resp_page = pg, resp_limit = lm, total = 1,
          opportunities = slice [ex_opp] ((pg - 1) * lm) ((pg - 1) * lm + lm),
          middles = [], books_summary = collect_books_summary ex_rows\<rparr>"
  by (simp add: get_arbitrage_def ex_filtered_page ex_scored Let_def) (simp add: default_params_def)

subsection \<open>The bucket with margin 50\<close>

lemma even_best:
  "best_price_by_outcome even_rows =
     [(''C'', quote ''Book1'' ''C vs D'' ''h2h'' ''C'' None 4 86400000000),
      (''D'', quote ''Book2'' ''C vs D'' ''h2h'' ''D'' None 4 86400000000)]"
  by (simp add: even_rows_def best_price_by_outcome_def outcome_key_def keep_best_def
      str_defs row_defs)

lemma even_margin: "calc_arb_margin (best_price_by_outcome even_rows) = Inr 50"
  by (simp add: even_best calc_arb_margin_def truediv_def row_defs)

lemma even_score: "score_bucket 50 ((''C vs D'', ''h2h'', None), even_rows) = Inr (Some even_opp)"
proof -
  have hd: "even_rows = quote ''Book1'' ''C vs D'' ''h2h'' ''C'' None 4 86400000000 # tl even_rows"
    by (simp add: even_rows_def)
  have m: "calc_arb_margin
     [(''C'', quote ''Book1'' ''C vs D'' ''h2h'' ''C'' None 4 86400000000),
      (''D'', quote ''Book2'' ''C vs D'' ''h2h'' ''D'' None 4 86400000000)] = Inr 50"
    using even_margin by (simp add: even_best)
  have r: "py_round 50 3 = 50" by (simp add: py_round_def round_half_even_def)
  show ?thesis
    apply (simp add: score_bucket_def even_best m del: One_nat_def)
    apply (subst hd)
    apply (simp add: quote_def str_defs r even_opp_def best_list_def price_def coerce_line_def)
    done
qed

subsection \<open>The response\<close>

lemma filtered_rows_page [simp]:
  "filtered_rows now db (p\<lparr>page := pg, limit := lm\<rparr>) = filtered_rows now db p"
  by (simp add: filtered_rows_def)

lemma scored_opportunities_page [simp]:
  "scored_opportunities rows (p\<lparr>page := pg, limit := lm\<rparr>) = scored_opportunities rows p"
  by (simp add: scored_opportunities_def cong: sum.case_cong)

lemma get_arbitrage_Inr:
  assumes "get_arbitrage now db p = Inr r"
  shows "1 \<le> page p \<and> 1 \<le> limit p \<and> limit p \<le> 500
    \<and> (\<exists>rows opps. filtered_rows now db p = Inr rows \<and> scored_opportunities rows p = Inr opps
          \<and> total r = length opps
          \<and> opportunities r = slice opps ((page p - 1) * limit p) ((page p - 1) * limit p + limit p))"
  using assms by (auto simp: get_arbitrage_def Let_def split: if_splits sum.splits)

lemma scored_opportunities_total: "\<exists>opps. scored_opportunities rows p = Inr opps"
  using score_groups_total [of "min_margin p" "group_by_event_market_line rows"]
  by (auto simp: scored_opportunities_def)

lemma get_arbitrage_returns:
  assumes "1 \<le> page p" "1 \<le> limit p" "limit p \<le> 500" "filtered_rows now db p = Inr rows"
  shows "\<exists>r. get_arbitrage now db p = Inr r"
  using assms scored_opportunities_total [of rows p]
  by (auto simp: get_arbitrage_def Let_def)

subsection \<open>The row filter\<close>

lemma floor_le_round_half_even: "\<lfloor>q\<rfloor> \<le> round_half_even q"
  by (simp add: round_half_even_def Let_def)

lemma round_half_even_lower: "of_int n \<le> q \<Longrightarrow> n \<le> round_half_even q"
proof -
  assume "of_int n \<le> q"
  then have "n \<le> \<lfloor>q\<rfloor>" by (simp add: le_floor_iff)
  also have "\<dots> \<le> round_half_even q" by (rule floor_le_round_half_even)
  finally show ?thesis .
qed

lemma filters_Inr:
  assumes "apply_row_level_filters now rows L M B h = Inr out"
  shows "\<exists>d. timedelta_hours h = Inr d \<and> datetime_add now d = Inr (now + d)
           \<and> out = filter (keep_row (now + d) L M B) rows"
  using assms
  by (auto simp: apply_row_level_filters_def datetime_add_def split: sum.splits if_splits)

lemma timedelta_hours_Inr: "timedelta_hours h = Inr d \<Longrightarrow> d = round_half_even (h * 3600000000)"
  by (auto simp: timedelta_hours_def Let_def split: if_splits)

lemma keep_row_books:
  "B \<noteq> {} \<Longrightarrow>
   keep_row cutoff L M (Some B) r = (keep_row cutoff L M None r \<and> or_empty (sportsbook r) \<in> B)"
  by (auto simp: keep_row_def truthy_set_def not_in_def split: option.splits)

subsection \<open>Grouping\<close>




lemma mset_dict_append:
  "mset (concat (map snd (dict_append k v d))) = add_mset v (mset (concat (map snd d)))"
  by (induction d) auto




lemma mset_grouped:
  "mset (concat (map snd (foldl (\<lambda>d r. dict_append (f r) r d) [] rows))) = mset rows"
  by (induction rows rule: rev_induct) (auto simp: mset_dict_append)




subsection \<open>The loops of the middle detector\<close>







subsection \<open>Candidates of the middle detector\<close>

lemmas middle_defs = by_event_def detect_middles_totals_def event_candidates_def is_over_def is_under_def
  best_by_line_def read_line_def keep_best_def over_loop_def under_loop_def


lemma detect_one_book:
  "detect_middles_totals [over_445, under_465] (1 / 2) (187 / 100) =
     [candidate ''J vs K'' (89 / 2) over_445 (93 / 2) under_465]"
  by (simp add: middle_defs over_445_def under_465_def quote_def str_defs num_defs price_def)

lemma candidate_fields [simp]:
  "mid_event (candidate ev lo over_row lu under_row) = ev"
  "leg_line (mid_over (candidate ev lo over_row lu under_row)) = lo"
  "leg_line (mid_under (candidate ev lo over_row lu under_row)) = lu"
  "middle_width (candidate ev lo over_row lu under_row) = lu - lo"
  "leg_sportsbook (mid_over (candidate ev lo over_row lu under_row)) = sportsbook over_row"
  "leg_sportsbook (mid_under (candidate ev lo over_row lu under_row)) = sportsbook under_row"
  by (simp_all add: candidate_def make_leg_def)


subsection \<open>Digits\<close>













subsection \<open>Formatting of thousandths\<close>















subsection \<open>Line keys\<close>












subsection \<open>Tallies\<close>

lemma book_of_row: "b \<noteq> [] \<Longrightarrow> (truthy_str (sportsbook r) \<and> or_empty (sportsbook r) = b) = (sportsbook r = Some b)"
  by (cases "sportsbook r") (auto simp: truthy_str_def or_empty_def)

lemma add_offer_sum:
  "b \<noteq> [] \<Longrightarrow> get_real (avg_odds_sum (add_offer t r)) b =
     get_real (avg_odds_sum t) b + (if sportsbook r = Some b then price r else 0)"
  using book_of_row [of b r] by (auto simp: add_offer_def get_real_def)

lemma add_offer_n:
  "b \<noteq> [] \<Longrightarrow> get_nat (avg_odds_n (add_offer t r)) b =
     get_nat (avg_odds_n t) b + (if sportsbook r = Some b then 1 else 0)"
  using book_of_row [of b r] by (auto simp: add_offer_def get_nat_def)

lemma add_offer_dom:
  "dom (avg_odds_sum t) = dom (avg_odds_n t) \<Longrightarrow>
   dom (avg_odds_sum (add_offer t r)) = dom (avg_odds_n (add_offer t r))"
  by (simp add: add_offer_def)

lemma credit_best_offers [simp]:
  "avg_odds_sum (credit_best t lst) = avg_odds_sum t"
  "avg_odds_n (credit_best t lst) = avg_odds_n t"
  by (simp_all add: credit_best_def split: option.splits)

lemma offers_sum:
  "b \<noteq> [] \<Longrightarrow> get_real (avg_odds_sum (foldl add_offer t lst)) b =
     get_real (avg_odds_sum t) b + (\<Sum>r\<leftarrow>filter (\<lambda>r. sportsbook r = Some b) lst. price r)"
  by (induction lst arbitrary: t) (simp_all add: add_offer_sum)

lemma offers_n:
  "b \<noteq> [] \<Longrightarrow> get_nat (avg_odds_n (foldl add_offer t lst)) b =
     get_nat (avg_odds_n t) b + length (filter (\<lambda>r. sportsbook r = Some b) lst)"
  by (induction lst arbitrary: t) (simp_all add: add_offer_n)

lemma offers_dom:
  "dom (avg_odds_sum t) = dom (avg_odds_n t) \<Longrightarrow>
   dom (avg_odds_sum (foldl add_offer t lst)) = dom (avg_odds_n (foldl add_offer t lst))"
  by (induction lst arbitrary: t) (simp_all add: add_offer_dom)

lemma groups_sum:
  "b \<noteq> [] \<Longrightarrow> get_real (avg_odds_sum (foldl (\<lambda>t g. tally_group t (snd g)) t gs)) b =
     get_real (avg_odds_sum t) b
       + (\<Sum>r\<leftarrow>filter (\<lambda>r. sportsbook r = Some b) (concat (map snd gs)). price r)"
  by (induction gs arbitrary: t) (simp_all add: tally_group_def offers_sum)

lemma groups_n:
  "b \<noteq> [] \<Longrightarrow> get_nat (avg_odds_n (foldl (\<lambda>t g. tally_group t (snd g)) t gs)) b =
     get_nat (avg_odds_n t) b + length (filter (\<lambda>r. sportsbook r = Some b) (concat (map snd gs)))"
  by (induction gs arbitrary: t) (simp_all add: tally_group_def offers_n)

lemma groups_dom:
  "dom (avg_odds_sum t) = dom (avg_odds_n t) \<Longrightarrow>
   dom (avg_odds_sum (foldl (\<lambda>t g. tally_group t (snd g)) t gs))
     = dom (avg_odds_n (foldl (\<lambda>t g. tally_group t (snd g)) t gs))"
proof (induction gs arbitrary: t)
  case Nil
  then show ?case by simp
next
  case (Cons g gs)
  have "dom (avg_odds_sum (tally_group t (snd g))) = dom (avg_odds_n (tally_group t (snd g)))"
    unfolding tally_group_def by (rule offers_dom) (simp add: Cons.prems)
  then show ?case using Cons.IH by simp
qed

lemma sum_filter_mset:
  fixes f :: "'a \<Rightarrow> real"
  assumes "mset xs = mset ys"
  shows "(\<Sum>r\<leftarrow>filter P xs. f r) = (\<Sum>r\<leftarrow>filter P ys. f r)"
proof -
  have "mset (map f (filter P xs)) = mset (map f (filter P ys))"
    by (simp add: assms)
  then have "sum_mset (mset (map f (filter P xs))) = sum_mset (mset (map f (filter P ys)))"
    by (rule arg_cong)
  then show ?thesis by (simp only: sum_mset_sum_list)
qed

lemma length_filter_mset:
  assumes "mset xs = mset ys"
  shows "length (filter P xs) = length (filter P ys)"
proof -
  have "mset (filter P xs) = mset (filter P ys)" by (simp add: assms)
  then have "size (mset (filter P xs)) = size (mset (filter P ys))" by (rule arg_cong)
  then show ?thesis by (simp only: size_mset)
qed

lemma mset_by_emo: "mset (concat (map snd (by_emo rows))) = mset rows"
  unfolding by_emo_def by (rule mset_grouped)

lemma no_tallies_fields:
  "get_real (avg_odds_sum no_tallies) b = 0" "get_nat (avg_odds_n no_tallies) b = 0"
  "dom (avg_odds_sum no_tallies) = dom (avg_odds_n no_tallies)"
  by (simp_all add: no_tallies_def get_real_def get_nat_def)

lemma tally_rows_fold: "tally_rows rows = foldl (\<lambda>t g. tally_group t (snd g)) no_tallies (by_emo rows)"
  by (simp add: tally_rows_def no_tallies_def)

lemma tally_rows_sum:
  assumes "b \<noteq> []"
  shows "get_real (avg_odds_sum (tally_rows rows)) b
     = (\<Sum>r\<leftarrow>filter (\<lambda>r. sportsbook r = Some b) rows. price r)"
proof -
  have "get_real (avg_odds_sum (tally_rows rows)) b
      = (\<Sum>r\<leftarrow>filter (\<lambda>r. sportsbook r = Some b) (concat (map snd (by_emo rows))). price r)"
    unfolding tally_rows_fold groups_sum [OF assms] by (simp add: no_tallies_fields)
  also have "\<dots> = (\<Sum>r\<leftarrow>filter (\<lambda>r. sportsbook r = Some b) rows. price r)"
    using mset_by_emo by (rule sum_filter_mset)
  finally show ?thesis .
qed

lemma tally_rows_n:
  assumes "b \<noteq> []"
  shows "get_nat (avg_odds_n (tally_rows rows)) b = length (filter (\<lambda>r. sportsbook r = Some b) rows)"
proof -
  have "get_nat (avg_odds_n (tally_rows rows)) b
      = length (filter (\<lambda>r. sportsbook r = Some b) (concat (map snd (by_emo rows))))"
    unfolding tally_rows_fold groups_n [OF assms] by (simp add: no_tallies_fields)
  also have "\<dots> = length (filter (\<lambda>r. sportsbook r = Some b) rows)"
    using mset_by_emo by (rule length_filter_mset)
  finally show ?thesis .
qed

lemma tally_rows_dom: "dom (avg_odds_sum (tally_rows rows)) = dom (avg_odds_n (tally_rows rows))"
  unfolding tally_rows_fold by (rule groups_dom) (rule no_tallies_fields)

section \<open>The margin of a bucket\<close>



text \<open>
  Claim C7. A best-price mapping with a price that is zero, negative or absent has margin 0:
  the loop returns before it divides.
\<close>

theorem margin_zero_on_nonpositive_price:
  "\<exists>kr\<in>set best. price (snd kr) \<le> 0 \<Longrightarrow> calc_arb_margin best = Inr 0"
  unfolding calc_arb_margin_def by (rule margin_loop_nonpositive) auto

theorem margin_zero_on_nonpositive_price_witness:
  "(\<exists>kr\<in>set [(''A'', quote ''Book1'' ''A vs B'' ''h2h'' ''A'' None 2 0),
                   (''B'', quote ''Book2'' ''A vs B'' ''h2h'' ''B'' None 0 0)]. price (snd kr) \<le> 0)
   \<and> calc_arb_margin [(''A'', quote ''Book1'' ''A vs B'' ''h2h'' ''A'' None 2 0),
                       (''B'', quote ''Book2'' ''A vs B'' ''h2h'' ''B'' None 0 0)] = Inr 0"
proof -
  have h: "\<exists>kr\<in>set [(''A'', quote ''Book1'' ''A vs B'' ''h2h'' ''A'' None 2 0),
                   (''B'', quote ''Book2'' ''A vs B'' ''h2h'' ''B'' None 0 0)]. price (snd kr) \<le> 0"
    by (simp add: row_defs)
  from h margin_zero_on_nonpositive_price [OF h] show ?thesis by blast
qed

section \<open>Which buckets are reported\<close>

text \<open>
  Claim C2, as stated, fails at the threshold: a bucket whose margin is exactly the
  minimum margin (here 50) is reported, although its margin does not exceed it.
\<close>

theorem threshold_counterexample:
  "score_bucket 50 ((''C vs D'', ''h2h'', None), even_rows) = Inr (Some even_opp)
   \<and> calc_arb_margin (best_price_by_outcome even_rows) = Inr 50
   \<and> \<not> (50 :: real) < 50"
  by (simp add: even_score even_margin)

text \<open>
  Claim C2, amended. A bucket is reported if and only if its best-price mapping has at
  least two outcome keys and its margin is above 0 and not below the minimum margin; a
  bucket with one outcome key is never reported.
\<close>

theorem bucket_reportable:
  "((\<exists>opp. score_bucket mm (k, rows) = Inr (Some opp)) \<longleftrightarrow>
      (2 \<le> length (best_price_by_outcome rows)
       \<and> (\<exists>m. calc_arb_margin (best_price_by_outcome rows) = Inr m \<and> 0 < m \<and> mm \<le> m)))
   \<and> (length (best_price_by_outcome rows) = 1 \<longrightarrow> score_bucket mm (k, rows) = Inr None)"
proof -
  let ?rhs = "2 \<le> length (best_price_by_outcome rows)
       \<and> (\<exists>m. calc_arb_margin (best_price_by_outcome rows) = Inr m \<and> 0 < m \<and> mm \<le> m)"
  have forth: "(\<exists>opp. score_bucket mm (k, rows) = Inr (Some opp)) \<longrightarrow> ?rhs"
  proof
    assume "\<exists>opp. score_bucket mm (k, rows) = Inr (Some opp)"
    then obtain opp where "score_bucket mm (k, rows) = Inr (Some opp)" ..
    from score_bucket_Some [OF this] show ?rhs by blast
  qed
  have backw: "?rhs \<longrightarrow> (\<exists>opp. score_bucket mm (k, rows) = Inr (Some opp))"
    using score_bucket_emits by blast
  have single: "length (best_price_by_outcome rows) = 1 \<longrightarrow> score_bucket mm (k, rows) = Inr None"
    by (cases k) (simp add: score_bucket_def)
  from forth backw single show ?thesis by blast
qed

theorem bucket_reportable_witness:
  "length (best_price_by_outcome [quote ''Book1'' ''C vs D'' ''h2h'' ''C'' None 4 86400000000]) = 1
   \<and> score_bucket 0 ((''C vs D'', ''h2h'', None),
        [quote ''Book1'' ''C vs D'' ''h2h'' ''C'' None 4 86400000000]) = Inr None
   \<and> score_bucket 50 ((''C vs D'', ''h2h'', None), even_rows) = Inr (Some even_opp)
   \<and> 2 \<le> length (best_price_by_outcome even_rows)"
proof -
  have one: "length (best_price_by_outcome
      [quote ''Book1'' ''C vs D'' ''h2h'' ''C'' None 4 86400000000]) = 1"
    by (simp add: best_price_by_outcome_def outcome_key_def keep_best_def str_defs row_defs)
  from bucket_reportable [of 0 "(''C vs D'', ''h2h'', None)"
      "[quote ''Book1'' ''C vs D'' ''h2h'' ''C'' None 4 86400000000]"] one
  have none: "score_bucket 0 ((''C vs D'', ''h2h'', None),
        [quote ''Book1'' ''C vs D'' ''h2h'' ''C'' None 4 86400000000]) = Inr None"
    by blast
  from bucket_reportable [of 50 "(''C vs D'', ''h2h'', None)" even_rows] even_score
  have two: "2 \<le> length (best_price_by_outcome even_rows)" by blast
  from one none two even_score show ?thesis by blast
qed

section \<open>Pagination\<close>

text \<open>
  Claim C8. Two calls at the same clock on the same table, with parameters that differ in
  \<open>page\<close> and \<open>limit\<close> only, return the same \<open>total\<close>, the number of scored opportunities
  before the page is cut; a page that starts at or after that number is empty.
\<close>

theorem total_independent_of_page:
  assumes "get_arbitrage now db (p\<lparr>page := pg1, limit := lm1\<rparr>) = Inr r1"
    and "get_arbitrage now db (p\<lparr>page := pg2, limit := lm2\<rparr>) = Inr r2"
  shows "total r1 = total r2
    \<and> (\<exists>rows opps. filtered_rows now db p = Inr rows \<and> scored_opportunities rows p = Inr opps
          \<and> total r1 = length opps)
    \<and> (int (total r1) \<le> (pg1 - 1) * lm1 \<longrightarrow> opportunities r1 = [])"
proof -
  from get_arbitrage_Inr [OF assms(1)] obtain rows opps
    where b1: "1 \<le> pg1" "1 \<le> lm1"
      and rows: "filtered_rows now db p = Inr rows"
      and opps: "scored_opportunities rows p = Inr opps"
      and t1: "total r1 = length opps"
      and o1: "opportunities r1 = slice opps ((pg1 - 1) * lm1) ((pg1 - 1) * lm1 + lm1)"
    by auto
  from get_arbitrage_Inr [OF assms(2)] rows opps have t2: "total r2 = length opps"
    by auto
  have beyond: "int (total r1) \<le> (pg1 - 1) * lm1 \<longrightarrow> opportunities r1 = []"
  proof
    assume "int (total r1) \<le> (pg1 - 1) * lm1"
    moreover have "0 \<le> (pg1 - 1) * lm1" using b1 by simp
    ultimately show "opportunities r1 = []" by (simp add: o1 t1 slice_beyond)
  qed
  from t1 t2 rows opps beyond show ?thesis by auto
qed

theorem total_independent_of_page_witness:
  "get_arbitrage 0 ex_rows (default_params\<lparr>page := 1, limit := 50\<rparr>)
     = Inr \<lparr>resp_page = 1, resp_limit = 50, total = 1, opportunities = [ex_opp],
            middles = [], books_summary = collect_books_summary ex_rows\<rparr>
   \<and> get_arbitrage 0 ex_rows (default_params\<lparr>page := 2, limit := 10\<rparr>)
     = Inr \<lparr>resp_page = 2, resp_limit = 10, total = 1, opportunities = [],
            middles = [], books_summary = collect_books_summary ex_rows\<rparr>"
proof -
  have r1: "get_arbitrage 0 ex_rows (default_params\<lparr>page := 1, limit := 50\<rparr>)
     = Inr \<lparr>resp_page = 1, resp_limit = 50, total = 1, opportunities = [ex_opp],
            middles = [], books_summary = collect_books_summary ex_rows\<rparr>"
    by (simp add: ex_response slice_def)
  have r2: "get_arbitrage 0 ex_rows (default_params\<lparr>page := 2, limit := 10\<rparr>)
     = Inr \<lparr>resp_page = 2, resp_limit = 10, total = 1,
            opportunities = slice [ex_opp] ((2 - 1) * 10) ((2 - 1) * 10 + 10),
            middles = [], books_summary = collect_books_summary ex_rows\<rparr>"
    by (rule ex_response) simp_all
  from total_independent_of_page [OF r2 r1] have "slice [ex_opp] ((2 - 1) * 10) ((2 - 1) * 10 + 10) = []"
    by simp
  with r1 r2 show ?thesis by simp
qed

section \<open>The time filter\<close>

text \<open>
  Claim C5, as stated, fails for a lead time below \<open>-1\<close>: with a lead of \<open>-2\<close> hours the
  cut-off is two hours before the clock, and a quote that started one hour ago passes.
\<close>

theorem negative_lead_counterexample:
  "apply_row_level_filters 1000000000000000
     [quote ''Book1'' ''A vs B'' ''h2h'' ''A'' None 2 (1000000000000000 - 3600000000)]
     None None None (- 2)
   = Inr [quote ''Book1'' ''A vs B'' ''h2h'' ''A'' None 2 (1000000000000000 - 3600000000)]"
  by (simp add: filter_defs quote_def round_half_even_def)

text \<open>
  Claim C5, amended. For every lead time of at least \<open>-1\<close> hour (so for every lead time that
  is not negative), a quote that started one hour before the clock is in no list that the
  filter returns.
\<close>

theorem started_quote_excluded:
  assumes "- 1 \<le> h" and "commence_time q = Some (now - 3600000000)"
    and "apply_row_level_filters now rows L M B h = Inr out"
  shows "q \<notin> set out"
proof -
  from filters_Inr [OF assms(3)] obtain d where d: "timedelta_hours h = Inr d"
    and out: "out = filter (keep_row (now + d) L M B) rows" by blast
  have "of_int (- 3600000000) \<le> h * 3600000000" using assms(1) by simp
  then have "- 3600000000 \<le> round_half_even (h * 3600000000)"
    by (rule round_half_even_lower)
  then have "now - 3600000000 \<le> now + d" using timedelta_hours_Inr [OF d] by simp
  then have "\<not> keep_row (now + d) L M B q" by (simp add: keep_row_def assms(2))
  then show ?thesis by (simp add: out)
qed

theorem started_quote_excluded_witness:
  "apply_row_level_filters 1000000000000000
     [quote ''Book1'' ''A vs B'' ''h2h'' ''A'' None 2 (1000000000000000 - 3600000000),
      quote ''Book2'' ''A vs B'' ''h2h'' ''B'' None 2 (1000000000000000 + 3600000000)]
     None None None 0
   = Inr [quote ''Book2'' ''A vs B'' ''h2h'' ''B'' None 2 (1000000000000000 + 3600000000)]
   \<and> quote ''Book1'' ''A vs B'' ''h2h'' ''A'' None 2 (1000000000000000 - 3600000000)
       \<notin> set [quote ''Book2'' ''A vs B'' ''h2h'' ''B'' None 2 (1000000000000000 + 3600000000)]"
proof -
  have run: "apply_row_level_filters 1000000000000000
     [quote ''Book1'' ''A vs B'' ''h2h'' ''A'' None 2 (1000000000000000 - 3600000000),
      quote ''Book2'' ''A vs B'' ''h2h'' ''B'' None 2 (1000000000000000 + 3600000000)]
     None None None 0
   = Inr [quote ''Book2'' ''A vs B'' ''h2h'' ''B'' None 2 (1000000000000000 + 3600000000)]"
    by (simp add: filter_defs quote_def round_half_even_def)
  have ct: "commence_time (quote ''Book1'' ''A vs B'' ''h2h'' ''A'' None 2 (1000000000000000 - 3600000000))
      = Some (1000000000000000 - 3600000000)"
    by (simp add: quote_def)
  have "- 1 \<le> (0::real)" by simp
  from started_quote_excluded [OF this ct run] run show ?thesis by blast
qed

section \<open>The sportsbook filter\<close>

text \<open>
  Claim C6, as stated, fails: the sportsbook is compared as stored, not lower-cased. The
  book \<open>DraftKings\<close> is rejected by the set \<open>{draftkings}\<close>, which holds its lower-cased
  name, and is kept by the set \<open>{DraftKings}\<close>, which does not.
\<close>

theorem lowercase_book_counterexample:
  "lower (or_empty (sportsbook (quote ''DraftKings'' ''A vs B'' ''h2h'' ''A'' None 2 86400000000)))
     \<in> {''draftkings''}
   \<and> apply_row_level_filters 0 [quote ''DraftKings'' ''A vs B'' ''h2h'' ''A'' None 2 86400000000]
       None None (Some {''draftkings''}) 0 = Inr []
   \<and> apply_row_level_filters 0 [quote ''DraftKings'' ''A vs B'' ''h2h'' ''A'' None 2 86400000000]
       None None (Some {''DraftKings''}) 0
       = Inr [quote ''DraftKings'' ''A vs B'' ''h2h'' ''A'' None 2 86400000000]"
  by (simp add: filter_defs quote_def round_half_even_def str_defs)

text \<open>
  Claim C6, amended. With a non-empty set of sportsbooks, the filter rejects a quote that
  passes the other tests exactly when the quote's sportsbook as stored (the empty text when
  absent) is not a member of the set.
\<close>

theorem sportsbook_filter_exact:
  assumes "B \<noteq> {}"
  shows "keep_row cutoff L M (Some B) r
           = (keep_row cutoff L M None r \<and> or_empty (sportsbook r) \<in> B)
    \<and> (apply_row_level_filters now rows L M (Some B) h = Inr out \<longrightarrow>
        (\<exists>unfiltered. apply_row_level_filters now rows L M None h = Inr unfiltered
           \<and> out = filter (\<lambda>r. or_empty (sportsbook r) \<in> B) unfiltered))"
proof -
  have rows: "filter (keep_row c L M (Some B)) rows
      = filter (\<lambda>r. or_empty (sportsbook r) \<in> B) (filter (keep_row c L M None) rows)" for c
    by (induction rows) (auto simp: keep_row_books [OF assms])
  have "apply_row_level_filters now rows L M (Some B) h = Inr out \<longrightarrow>
        (\<exists>unfiltered. apply_row_level_filters now rows L M None h = Inr unfiltered
           \<and> out = filter (\<lambda>r. or_empty (sportsbook r) \<in> B) unfiltered)"
    by (auto simp: apply_row_level_filters_def rows split: sum.splits)
  with keep_row_books [OF assms] show ?thesis by blast
qed

theorem sportsbook_filter_exact_witness:
  "apply_row_level_filters 0
     [quote ''DraftKings'' ''A vs B'' ''h2h'' ''A'' None 2 86400000000,
      quote ''draftkings'' ''A vs B'' ''h2h'' ''B'' None 2 86400000000]
     None None (Some {''DraftKings''}) 0
   = Inr [quote ''DraftKings'' ''A vs B'' ''h2h'' ''A'' None 2 86400000000]
   \<and> apply_row_level_filters 0
     [quote ''DraftKings'' ''A vs B'' ''h2h'' ''A'' None 2 86400000000,
      quote ''draftkings'' ''A vs B'' ''h2h'' ''B'' None 2 86400000000]
     None None None 0
   = Inr [quote ''DraftKings'' ''A vs B'' ''h2h'' ''A'' None 2 86400000000,
      quote ''draftkings'' ''A vs B'' ''h2h'' ''B'' None 2 86400000000]"
proof -
  have ne: "{''DraftKings''} \<noteq> ({} :: string set)" by simp
  have run: "apply_row_level_filters 0
     [quote ''DraftKings'' ''A vs B'' ''h2h'' ''A'' None 2 86400000000,
      quote ''draftkings'' ''A vs B'' ''h2h'' ''B'' None 2 86400000000]
     None None (Some {''DraftKings''}) 0
   = Inr [quote ''DraftKings'' ''A vs B'' ''h2h'' ''A'' None 2 86400000000]"
    by (simp add: filter_defs quote_def round_half_even_def str_defs)
  have all: "apply_row_level_filters 0
     [quote ''DraftKings'' ''A vs B'' ''h2h'' ''A'' None 2 86400000000,
      quote ''draftkings'' ''A vs B'' ''h2h'' ''B'' None 2 86400000000]
     None None None 0
   = Inr [quote ''DraftKings'' ''A vs B'' ''h2h'' ''A'' None 2 86400000000,
      quote ''draftkings'' ''A vs B'' ''h2h'' ''B'' None 2 86400000000]"
    by (simp add: filter_defs quote_def round_half_even_def str_defs)
  from sportsbook_filter_exact [OF ne, of 0 None None
      "quote ''DraftKings'' ''A vs B'' ''h2h'' ''A'' None 2 86400000000" 0
      "[quote ''DraftKings'' ''A vs B'' ''h2h'' ''A'' None 2 86400000000,
        quote ''draftkings'' ''A vs B'' ''h2h'' ''B'' None 2 86400000000]" 0
      "[quote ''DraftKings'' ''A vs B'' ''h2h'' ''A'' None 2 86400000000]"]
    run all
  show ?thesis by blast
qed

section \<open>Totals middles\<close>



text \<open>
  Claim C10. Nothing asks the two legs to come from different books: one book quoting the
  Over at 44.5 and the Under at 46.5 gives a candidate with both legs from that book.
\<close>

theorem same_book_middle:
  "detect_middles_totals [over_445, under_465] (1 / 2) (187 / 100)
     = [candidate ''J vs K'' (89 / 2) over_445 (93 / 2) under_465]
   \<and> leg_sportsbook (mid_over (candidate ''J vs K'' (89 / 2) over_445 (93 / 2) under_465))
       = Some ''OneBook''
   \<and> leg_sportsbook (mid_under (candidate ''J vs K'' (89 / 2) over_445 (93 / 2) under_465))
       = Some ''OneBook''"
  by (simp add: detect_one_book) (simp add: over_445_def under_465_def quote_def)

section \<open>The line key of a spread\<close>




section \<open>Average offered price\<close>

text \<open>
  Claim C9. For a book with a non-empty name, the sum of the tallies is the sum of the prices
  of all its rows and the count is their number, whatever the prices (an absent price counts
  as 0); the summary's average is their quotient.
\<close>

theorem every_offer_counts:
  assumes "b \<noteq> []"
  shows "get_real (avg_odds_sum (tally_rows rows)) b
       = (\<Sum>r\<leftarrow>filter (\<lambda>r. sportsbook r = Some b) rows. price r)
    \<and> get_nat (avg_odds_n (tally_rows rows)) b = length (filter (\<lambda>r. sportsbook r = Some b) rows)
    \<and> (filter (\<lambda>r. sportsbook r = Some b) rows \<noteq> [] \<longrightarrow>
        (\<exists>st. collect_books_summary rows b = Some st
           \<and> avg_offered_decimal st =
               Some ((\<Sum>r\<leftarrow>filter (\<lambda>r. sportsbook r = Some b) rows. price r)
                     / real (length (filter (\<lambda>r. sportsbook r = Some b) rows)))))"
proof (intro conjI impI)
  show "get_real (avg_odds_sum (tally_rows rows)) b
       = (\<Sum>r\<leftarrow>filter (\<lambda>r. sportsbook r = Some b) rows. price r)"
    using assms by (rule tally_rows_sum)
  show "get_nat (avg_odds_n (tally_rows rows)) b = length (filter (\<lambda>r. sportsbook r = Some b) rows)"
    using assms by (rule tally_rows_n)
next
  assume ne: "filter (\<lambda>r. sportsbook r = Some b) rows \<noteq> []"
  then have n: "get_nat (avg_odds_n (tally_rows rows)) b \<noteq> 0"
    by (simp add: tally_rows_n [OF assms])
  then have "b \<in> dom (avg_odds_n (tally_rows rows))"
    by (auto simp: get_nat_def split: option.splits)
  then have d: "b \<in> dom (avg_odds_sum (tally_rows rows))" by (simp add: tally_rows_dom)
  show "\<exists>st. collect_books_summary rows b = Some st
           \<and> avg_offered_decimal st =
               Some ((\<Sum>r\<leftarrow>filter (\<lambda>r. sportsbook r = Some b) rows. price r)
                     / real (length (filter (\<lambda>r. sportsbook r = Some b) rows)))"
    using d n by (simp add: collect_books_summary_def Let_def tally_rows_sum [OF assms]
        tally_rows_n [OF assms])
qed

theorem every_offer_counts_witness:
  "get_real (avg_odds_sum (tally_rows offers)) ''Book1'' = 1
   \<and> get_nat (avg_odds_n (tally_rows offers)) ''Book1'' = 2
   \<and> (\<exists>st. collect_books_summary offers ''Book1'' = Some st \<and> avg_offered_decimal st = Some (1 / 2))"
proof -
  have b: "''Book1'' \<noteq> []" by simp
  have f: "filter (\<lambda>r. sportsbook r = Some ''Book1'') offers =
      [quote ''Book1'' ''A vs B'' ''h2h'' ''A'' None 2 86400000000,
       quote ''Book1'' ''A vs B'' ''h2h'' ''B'' None (- 1) 86400000000]"
    by (simp add: offers_def quote_def)
  have p: "price (quote bk ev mk oc l x t) = x" for bk ev mk oc l x t
    by (simp add: quote_def price_def)
  from every_offer_counts [OF b, of offers] show ?thesis
    by (simp add: f p)
qed

end
